theory Spec2Isabelle
  imports Main "HOL-Library.AList" "HOL-Library.Sublist" "HOL-Library.Word"
begin

section \<open>JavaScript values\<close>

text \<open>
  The gateway (\<^verbatim>\<open>app.js\<close>) handles device records, parsed JSON documents and
  configuration options, all of them untyped JavaScript values that it tests with
  lodash's \<^verbatim>\<open>isEmpty\<close>. A value is undefined, null, a boolean, a number, a string,
  an array or an object.

  \<^item> A number is NaN or an integer from \<open>-2\<^sup>5\<^sup>3\<close> to \<open>2\<^sup>5\<^sup>3 - 1\<close>, held as a 54-bit
    word and read with \<open>sint\<close>: these are Numbers exactly, and JavaScript prints them
    in plain decimal.
  \<^item> A string is a sequence of code units below 256.
  \<^item> An object is a piece of data such as \<^verbatim>\<open>JSON.parse\<close> returns: the list of its own
    properties in the order of their creation, where the first pair of a name counts,
    and \<^verbatim>\<open>Object.prototype\<close> as its prototype. It has no function among its
    properties.
\<close>

datatype jsval =
    JUndefined
  | JNull
  | JBool bool
  | JNum "54 word"
  | JNaN
  | JStr string
  | JArr "jsval list"
  | JObj "(string \<times> jsval) list"

type_synonym jsobj = "(string \<times> jsval) list"

datatype js_error = TypeError string

text \<open>
  \<^verbatim>\<open>isEmpty\<close> of lodash: an array or a string is empty when its length is 0, an
  object when it has no own enumerable property; every other value (undefined, null,
  booleans, numbers) is empty.
\<close>

fun isEmpty :: "jsval \<Rightarrow> bool" where
  "isEmpty (JStr s) = (s = [])"
| "isEmpty (JArr xs) = (xs = [])"
| "isEmpty (JObj kvs) = (kvs = [])"
| "isEmpty JUndefined = True"
| "isEmpty JNull = True"
| "isEmpty (JBool b) = True"
| "isEmpty (JNum n) = True"
| "isEmpty JNaN = True"

subsection \<open>Conversion to string\<close>

definition digit_char :: "nat \<Rightarrow> char" where
  "digit_char d = char_of (48 + d)"

function show_nat :: "nat \<Rightarrow> string" where
  "show_nat n = (if n < 10 then [digit_char n] else show_nat (n div 10) @ [digit_char (n mod 10)])"
  by pat_completeness auto
termination
  by (relation "measure (\<lambda>n. n)") auto

declare show_nat.simps [simp del]

definition show_int :: "int \<Rightarrow> string" where
  "show_int i = (if i < 0 then CHR ''-'' # show_nat (nat (- i)) else show_nat (nat i))"

text \<open>
  \<^verbatim>\<open>Array.prototype.join\<close> on the converted elements: the conversions run from left
  to right and the first that throws ends the join.
\<close>

fun join_all :: "(js_error + string) list \<Rightarrow> js_error + string" where
  "join_all [] = Inr []"
| "join_all [r] = r"
| "join_all (r # r' # rs) =
     (case r of
        Inl e \<Rightarrow> Inl e
      | Inr s \<Rightarrow> (case join_all (r' # rs) of Inl e \<Rightarrow> Inl e | Inr t \<Rightarrow> Inr (s @ '','' @ t)))"

text \<open>
  ToString, as a template literal and a computed property name apply it.
  \<^item> An array is its elements joined by commas, undefined and null elements being empty
    strings.
  \<^item> An object is converted by its \<^verbatim>\<open>toString\<close> method. One without an own property
    \<^verbatim>\<open>toString\<close> inherits the method of \<^verbatim>\<open>Object.prototype\<close> and is
    \<^verbatim>\<open>[object Object]\<close>. An own property \<^verbatim>\<open>toString\<close> is not a function, so the
    conversion goes on to \<^verbatim>\<open>valueOf\<close>, which is not a function either or returns the
    object, and throws a TypeError.
\<close>

fun js_toString :: "jsval \<Rightarrow> js_error + string" where
  "js_toString JUndefined = Inr ''undefined''"
| "js_toString JNull = Inr ''null''"
| "js_toString (JBool b) = Inr (if b then ''true'' else ''false'')"
| "js_toString (JNum n) = Inr (show_int (sint n))"
| "js_toString JNaN = Inr ''NaN''"
| "js_toString (JStr s) = Inr s"
| "js_toString (JArr xs) =
     join_all (map (\<lambda>x. if x = JUndefined \<or> x = JNull then Inr [] else js_toString x) xs)"
| "js_toString (JObj kvs) =
     (if ''toString'' \<in> fst ` set kvs
      then Inl (TypeError ''Cannot convert object to primitive value'')
      else Inr ''[object Object]'')"

subsection \<open>Reading the properties of a value\<close>

text \<open>\<^verbatim>\<open>obj[key]\<close> on a piece of data, for a name that is not one of
  \<^verbatim>\<open>Object.prototype\<close>: the own property, or undefined.\<close>

definition obj_get :: "jsobj \<Rightarrow> string \<Rightarrow> jsval" where
  "obj_get obj k = (case map_of obj k of Some v \<Rightarrow> v | None \<Rightarrow> JUndefined)"

text \<open>
  \<^verbatim>\<open>v.name\<close> for one of the names the gateway reads (\<^verbatim>\<open>_id\<close>, \<^verbatim>\<open>target\<close>,
  \<^verbatim>\<open>message\<close>, \<^verbatim>\<open>device\<close>, \<^verbatim>\<open>messageId\<close>): reading a property of undefined or
  null throws a TypeError; booleans, numbers, strings and arrays have no property of
  these names.
\<close>

fun js_get :: "jsval \<Rightarrow> string \<Rightarrow> js_error + jsval" where
  "js_get JUndefined k = Inl (TypeError (''Cannot read property '' @ k @ '' of undefined''))"
| "js_get JNull k = Inl (TypeError (''Cannot read property '' @ k @ '' of null''))"
| "js_get (JObj kvs) k = Inr (obj_get kvs k)"
| "js_get v k = Inr JUndefined"

text \<open>
  The iteratee lodash builds from a property name (\<^verbatim>\<open>keyBy(xs, '_id')\<close>): as
  \<^verbatim>\<open>js_get\<close>, but undefined for undefined and null instead of throwing.
\<close>

fun property :: "string \<Rightarrow> jsval \<Rightarrow> jsval" where
  "property k (JObj kvs) = obj_get kvs k"
| "property k v = JUndefined"

subsection \<open>Strings\<close>

text \<open>The white space of JavaScript (\<^verbatim>\<open>\s\<close>) among the code units below 256: tab, line
  feed, vertical tab, form feed, carriage return, space and the no-break space.\<close>

definition js_space :: "char \<Rightarrow> bool" where
  "js_space c = (of_char c \<in> {9, 10, 11, 12, 13, 32, 160 :: nat})"

text \<open>\<^verbatim>\<open>trim\<close> of lodash, without characters to trim: white space off both ends.\<close>

definition trim :: "string \<Rightarrow> string" where
  "trim s = rev (dropWhile js_space (rev (dropWhile js_space s)))"

text \<open>\<^verbatim>\<open>uniq\<close> of lodash: the first occurrence of every element, in order.\<close>

definition uniq :: "'a list \<Rightarrow> 'a list" where
  "uniq xs = rev (remdups (rev xs))"

text \<open>\<^verbatim>\<open>s.split(',')\<close>: the pieces between the separators, empty pieces included.\<close>

fun split_on :: "char \<Rightarrow> string \<Rightarrow> string list" where
  "split_on sep [] = [[]]"
| "split_on sep (c # cs) =
     (if c = sep then [] # split_on sep cs
      else (case split_on sep cs of [] \<Rightarrow> [[c]] | w # ws \<Rightarrow> (c # w) # ws))"

subsection \<open>parseInt\<close>

text \<open>
  What \<^verbatim>\<open>parseInt\<close> returns: NaN, or the Number value for an integer. \<open>Number n\<close>
  stands for that value: \<open>n\<close> itself up to \<open>2\<^sup>5\<^sup>3\<close> in magnitude, and beyond it the
  double that JavaScript rounds \<open>n\<close> to.
\<close>

datatype number = NaN | Number int

definition digit_of :: "nat \<Rightarrow> char \<Rightarrow> nat option" where
  "digit_of radix c =
     (let n = (of_char c :: nat);
          d = (if 48 \<le> n \<and> n \<le> 57 then Some (n - 48)
               else if 97 \<le> n \<and> n \<le> 122 then Some (n - 87)
               else if 65 \<le> n \<and> n \<le> 90 then Some (n - 55)
               else None)
      in case d of Some k \<Rightarrow> (if k < radix then Some k else None) | None \<Rightarrow> None)"

fun read_digits :: "nat \<Rightarrow> string \<Rightarrow> nat option \<Rightarrow> nat option" where
  "read_digits radix [] acc = acc"
| "read_digits radix (c # cs) acc =
     (case digit_of radix c of
        None \<Rightarrow> acc
      | Some d \<Rightarrow> read_digits radix cs (Some ((case acc of None \<Rightarrow> 0 | Some a \<Rightarrow> a) * radix + d)))"

text \<open>
  \<^verbatim>\<open>parseInt(s)\<close> with no radix, on a string: leading white space and one sign are
  skipped, a prefix \<^verbatim>\<open>0x\<close> selects base 16, and the longest run of digits is read; NaN
  when there is no digit.
\<close>

definition parseInt_string :: "string \<Rightarrow> number" where
  "parseInt_string s =
     (let s1 = dropWhile js_space s;
          neg = (case s1 of c # _ \<Rightarrow> c = CHR ''-'' | [] \<Rightarrow> False);
          s2 = (case s1 of c # cs \<Rightarrow> (if c = CHR ''-'' \<or> c = CHR ''+'' then cs else s1) | [] \<Rightarrow> s1);
          hex = (case s2 of a # b # _ \<Rightarrow> a = CHR ''0'' \<and> (b = CHR ''x'' \<or> b = CHR ''X'') | _ \<Rightarrow> False);
          s3 = (if hex then drop 2 s2 else s2)
      in case read_digits (if hex then 16 else 10) s3 None of
           None \<Rightarrow> NaN
         | Some n \<Rightarrow> Number (if neg then - int n else int n))"

text \<open>\<^verbatim>\<open>parseInt(v)\<close>: the argument is converted to a string first, which can throw.\<close>

definition parseInt :: "jsval \<Rightarrow> js_error + number" where
  "parseInt v = (case js_toString v of Inl e \<Rightarrow> Inl e | Inr s \<Rightarrow> Inr (parseInt_string s))"

section \<open>Objects used as maps\<close>

text \<open>
  The registry \<^verbatim>\<open>authorizedDevices\<close> and the index \<^verbatim>\<open>authorizedTopics\<close> are objects
  that start as \<^verbatim>\<open>{}\<close> and are written with \<^verbatim>\<open>obj[key] = value\<close>, read with
  \<^verbatim>\<open>obj[key]\<close> and cleared with \<^verbatim>\<open>delete obj[key]\<close>, for keys that devices and
  clients choose. Such an object is its own properties and its prototype, because the
  key \<^verbatim>\<open>__proto__\<close> is the accessor of \<^verbatim>\<open>Object.prototype\<close>: assigning an object to
  it replaces the prototype, and reading it returns the prototype. The prototype is
  \<^verbatim>\<open>Object.prototype\<close>, or null, or a piece of data that was assigned.
\<close>

datatype prototype = ObjectPrototype | NullPrototype | Prototype jsval

record jsobject =
  own :: jsobj
  proto :: prototype

definition empty_object :: jsobject where
  "empty_object = \<lparr>own = [], proto = ObjectPrototype\<rparr>"

text \<open>An array index: the decimal form of a number up to \<open>2\<^sup>3\<^sup>2 - 2\<close>.\<close>

definition array_index :: "string \<Rightarrow> nat option" where
  "array_index k =
     (case read_digits 10 k None of
        None \<Rightarrow> None
      | Some n \<Rightarrow> (if show_nat n = k \<and> n \<le> 4294967294 then Some n else None))"

text \<open>
  \<^verbatim>\<open>obj[key]\<close> where the object has no own property of the name: the property is looked
  for along the prototype chain. The gateway passes what it reads to \<^verbatim>\<open>isEmpty\<close> only,
  and \<^verbatim>\<open>isEmpty\<close> is true of \<^verbatim>\<open>Object.prototype\<close> and of every function built into
  the runtime, as it is of undefined: a read that ends at one of them is given as
  undefined.
  \<^item> With \<^verbatim>\<open>Object.prototype\<close> as the prototype, the read finds one of its methods,
    or for \<^verbatim>\<open>__proto__\<close> the prototype itself, or nothing.
  \<^item> With an assigned object as the prototype, the read finds a property of that
    object; failing that, \<^verbatim>\<open>__proto__\<close> reads the assigned object, through the
    accessor, and any other name is as before.
  \<^item> With an assigned array it finds an element or the length.
\<close>

fun inherited :: "prototype \<Rightarrow> string \<Rightarrow> jsval" where
  "inherited ObjectPrototype k = JUndefined"
| "inherited NullPrototype k = JUndefined"
| "inherited (Prototype (JObj kvs)) k =
     (case map_of kvs k of
        Some v \<Rightarrow> v
      | None \<Rightarrow> (if k = ''__proto__'' then JObj kvs else JUndefined))"
| "inherited (Prototype (JArr xs)) k =
     (case array_index k of
        Some i \<Rightarrow> (if i < length xs then xs ! i else JUndefined)
      | None \<Rightarrow>
          (if k = ''length'' then JNum (of_nat (length xs))
           else if k = ''__proto__'' then JArr xs
           else JUndefined))"
| "inherited (Prototype v) k = JUndefined"

definition get_prop :: "jsobject \<Rightarrow> string \<Rightarrow> jsval" where
  "get_prop obj k = (case map_of (own obj) k of Some v \<Rightarrow> v | None \<Rightarrow> inherited (proto obj) k)"

text \<open>
  An assignment to \<^verbatim>\<open>__proto__\<close> calls the accessor of \<^verbatim>\<open>Object.prototype\<close> unless
  a data property of that name comes first: an own one, or one of the assigned prototype
  (\<^verbatim>\<open>JSON.parse\<close> creates such properties), or none at all is found because the
  prototype is null.
\<close>

definition reaches_accessor :: "jsobject \<Rightarrow> bool" where
  "reaches_accessor obj =
     (map_of (own obj) ''__proto__'' = None \<and>
      (case proto obj of
         ObjectPrototype \<Rightarrow> True
       | NullPrototype \<Rightarrow> False
       | Prototype (JObj kvs) \<Rightarrow> map_of kvs ''__proto__'' = None
       | Prototype v \<Rightarrow> True))"

text \<open>The accessor sets the prototype to an object or to null and ignores any other value.\<close>

fun set_prototype :: "jsobject \<Rightarrow> jsval \<Rightarrow> jsobject" where
  "set_prototype obj (JObj kvs) = obj\<lparr>proto := Prototype (JObj kvs)\<rparr>"
| "set_prototype obj (JArr xs) = obj\<lparr>proto := Prototype (JArr xs)\<rparr>"
| "set_prototype obj JNull = obj\<lparr>proto := NullPrototype\<rparr>"
| "set_prototype obj v = obj"

text \<open>\<^verbatim>\<open>obj[key] = value\<close>: through the accessor, or else a property of the object itself
  is written, a new one coming last.\<close>

definition set_prop :: "jsobject \<Rightarrow> string \<Rightarrow> jsval \<Rightarrow> jsobject" where
  "set_prop obj k v =
     (if k = ''__proto__'' \<and> reaches_accessor obj then set_prototype obj v
      else obj\<lparr>own := AList.update k v (own obj)\<rparr>)"

text \<open>\<^verbatim>\<open>delete obj[key]\<close> removes an own property and nothing else.\<close>

definition delete_prop :: "jsobject \<Rightarrow> string \<Rightarrow> jsobject" where
  "delete_prop obj k = obj\<lparr>own := AList.delete k (own obj)\<rparr>"

section \<open>Collections of lodash\<close>

text \<open>
  The own property names of a piece of data as JavaScript enumerates them: the array
  indices in ascending order, then the other names in the order of their creation.
\<close>

definition index_of :: "string \<Rightarrow> nat" where
  "index_of k = (case array_index k of Some n \<Rightarrow> n | None \<Rightarrow> 0)"

definition own_keys :: "jsobj \<Rightarrow> string list" where
  "own_keys kvs =
     sort_key index_of (filter (\<lambda>k. array_index k \<noteq> None) (uniq (map fst kvs))) @
     filter (\<lambda>k. array_index k = None) (uniq (map fst kvs))"

text \<open>
  The values a lodash collection function iterates over: the elements of an array, the
  characters of a string, and the property values of an object; but an object whose
  \<^verbatim>\<open>length\<close> is a number that can be a length is taken for an array and read at the
  indices below the length.
\<close>

fun collection_values :: "jsval \<Rightarrow> jsval list" where
  "collection_values (JArr xs) = xs"
| "collection_values (JStr s) = map (\<lambda>c. JStr [c]) s"
| "collection_values (JObj kvs) =
     (case obj_get kvs ''length'' of
        JNum n \<Rightarrow>
          (if 0 \<le> sint n then map (\<lambda>i. obj_get kvs (show_nat i)) [0..<nat (sint n)]
           else map (obj_get kvs) (own_keys kvs))
      | v \<Rightarrow> map (obj_get kvs) (own_keys kvs))"
| "collection_values v = []"

text \<open>
  \<^verbatim>\<open>keyBy(collection, iteratee)\<close> of the package \<^verbatim>\<open>lodash.keyby\<close>: starting from
  \<^verbatim>\<open>{}\<close>, every element in turn is assigned, \<^verbatim>\<open>result[key] = value\<close>, under the key
  that the iteratee gives for it. The key is converted to a property name, which can
  throw.
\<close>

fun keyBy_from :: "jsobject \<Rightarrow> (jsval \<Rightarrow> jsval) \<Rightarrow> jsval list \<Rightarrow> js_error + jsobject" where
  "keyBy_from acc iteratee [] = Inr acc"
| "keyBy_from acc iteratee (x # xs) =
     (case js_toString (iteratee x) of
        Inl e \<Rightarrow> Inl e
      | Inr k \<Rightarrow> keyBy_from (set_prop acc k x) iteratee xs)"

definition keyBy :: "(jsval \<Rightarrow> jsval) \<Rightarrow> jsval list \<Rightarrow> js_error + jsobject" where
  "keyBy iteratee xs = keyBy_from empty_object iteratee xs"

text \<open>\<^verbatim>\<open>keyBy(strings)\<close> with no iteratee: every string is assigned under itself.\<close>

definition keyBy_strings :: "string list \<Rightarrow> jsobject" where
  "keyBy_strings ts = foldl (\<lambda>acc t. set_prop acc t (JStr t)) empty_object ts"

section \<open>The gateway\<close>

subsection \<open>State and observable calls\<close>

text \<open>
  The module-level variables of \<^verbatim>\<open>app.js\<close>: the registry \<^verbatim>\<open>authorizedDevices\<close>
  (initially \<^verbatim>\<open>{}\<close>), \<^verbatim>\<open>server\<close> (undefined until the ready handler creates the
  broker: only that is recorded), \<^verbatim>\<open>port\<close> and \<^verbatim>\<open>qos\<close> (None while undefined).
  \<^verbatim>\<open>ready_listener\<close> tells whether the handler that \<^verbatim>\<open>platform.once('ready', ...)\<close>
  registered is still registered.
\<close>

record gateway =
  authorizedDevices :: jsobject
  server :: bool
  port :: jsval
  qos :: "number option"
  ready_listener :: bool

definition initial :: gateway where
  "initial = \<lparr>authorizedDevices = empty_object, server = False, port = JUndefined, qos = None,
              ready_listener = True\<rparr>"

text \<open>
  The variables the ready handler declares and its broker callbacks close over. They
  are assigned once.
\<close>

record routes =
  dataTopic :: string
  messageTopic :: string
  groupMessageTopic :: string
  authorizedTopics :: jsobject

text \<open>
  The options of the ready event: \<^verbatim>\<open>qos\<close> and \<^verbatim>\<open>port\<close> are any value; a topic
  option is absent or a string. \<^verbatim>\<open>config.json\<close> supplies the three default topics.
\<close>

record options =
  opt_qos :: jsval
  opt_port :: jsval
  data_topic :: "string option"
  message_topic :: "string option"
  groupmessage_topic :: "string option"
  authorized_topics :: "string option"

record config =
  data_topic_default :: string
  message_topic_default :: string
  groupmessage_topic_default :: string

text \<open>
  A packet the broker reports as published, with its payload as a string
  (\<^verbatim>\<open>message.payload.toString()\<close>), and the client it came from: the handlers below
  are those of packets that a client sent.
\<close>

record packet =
  topic :: string
  payload :: string

record client =
  client_id :: string

text \<open>The argument of \<^verbatim>\<open>server.publish\<close>; \<^verbatim>\<open>pub_messageId\<close> is None when the
  object literal has no such field.\<close>

record publication =
  pub_topic :: jsval
  pub_payload :: jsval
  pub_messageId :: "jsval option"
  pub_qos :: "number option"
  pub_retain :: bool

text \<open>
  What \<^verbatim>\<open>platform.log\<close> receives: a string, an Error object (its message), or the
  result of \<^verbatim>\<open>JSON.stringify\<close> (the document that is serialised).
\<close>

datatype logged = Text string | Failure string | Json jsval

text \<open>
  The calls a handler makes on the platform and on the broker, in order.
  \<^verbatim>\<open>HandleException\<close> carries the message of the Error.
\<close>

datatype effect =
    ServerPublish publication
  | Log logged
  | HandleException string
  | ProcessData string string
  | SendMessageToDevice jsval jsval
  | SendMessageToGroup jsval jsval
  | SendMessageResponse jsval string

subsection \<open>The message event\<close>

text \<open>
  \<^verbatim>\<open>platform.on('message', ...)\<close>. The broker calls the completion callback of
  \<^verbatim>\<open>server.publish\<close> once the packet is published. Before the ready event
  \<^verbatim>\<open>server\<close> is undefined and \<^verbatim>\<open>server.publish\<close> throws.
\<close>

definition on_message :: "gateway \<Rightarrow> jsval \<Rightarrow> js_error + effect list" where
  "on_message g message =
     (if \<not> server g then Inl (TypeError ''Cannot read property publish of undefined'')
      else
        (case js_get message ''device'' of
           Inl e \<Rightarrow> Inl e
         | Inr dev \<Rightarrow>
             (case js_get message ''message'' of
                Inl e \<Rightarrow> Inl e
              | Inr body \<Rightarrow>
                  (case js_get message ''messageId'' of
                     Inl e \<Rightarrow> Inl e
                   | Inr mid \<Rightarrow>
                       Inr [ServerPublish \<lparr>pub_topic = dev, pub_payload = body,
                                            pub_messageId = Some mid, pub_qos = qos g,
                                            pub_retain = False\<rparr>,
                            SendMessageResponse mid ''Message Published'',
                            Log (Json (JObj [(''title'', JStr ''Message Published''),
                                             (''device'', dev), (''messageId'', mid),
                                             (''message'', body)]))]))))"

subsection \<open>The device registry\<close>

text \<open>
  The test \<^verbatim>\<open>!isEmpty(device) && !isEmpty(device._id)\<close> of both handlers. Where it
  holds the device is neither undefined nor null, so the handlers' further reads of
  \<^verbatim>\<open>device._id\<close> cannot throw; they are written with \<^verbatim>\<open>property\<close>.
\<close>

definition valid_device :: "jsval \<Rightarrow> js_error + bool" where
  "valid_device device =
     (if isEmpty device then Inr False
      else (case js_get device ''_id'' of Inl e \<Rightarrow> Inl e | Inr i \<Rightarrow> Inr (\<not> isEmpty i)))"

text \<open>
  \<^verbatim>\<open>platform.on('adddevice', ...)\<close>. For a valid device, \<^verbatim>\<open>device._id\<close> is converted
  to a property name for the assignment, and again, with the same outcome, for the log
  message; where the conversion throws, nothing has been assigned. For any other device
  the device itself is converted to a string for the message of the Error, before
  \<^verbatim>\<open>handleException\<close> is called. A handler that throws leaves the gateway as it was.
\<close>

definition adddevice :: "jsval \<Rightarrow> gateway \<Rightarrow> js_error + gateway \<times> effect list" where
  "adddevice device g =
     (case valid_device device of
        Inl e \<Rightarrow> Inl e
      | Inr ok \<Rightarrow>
          if ok then
            (case js_toString (property ''_id'' device) of
               Inl e \<Rightarrow> Inl e
             | Inr k \<Rightarrow>
                 Inr (g\<lparr>authorizedDevices := set_prop (authorizedDevices g) k device\<rparr>,
                      [Log (Text (''Successfully added '' @ k @
                                  '' to the pool of authorized devices.''))]))
          else
            (case js_toString device of
               Inl e \<Rightarrow> Inl e
             | Inr shown \<Rightarrow>
                 Inr (g, [HandleException (''Device data invalid. Device not added. '' @ shown)])))"

text \<open>\<^verbatim>\<open>platform.on('removedevice', ...)\<close>, in the same way.\<close>

definition removedevice :: "jsval \<Rightarrow> gateway \<Rightarrow> js_error + gateway \<times> effect list" where
  "removedevice device g =
     (case valid_device device of
        Inl e \<Rightarrow> Inl e
      | Inr ok \<Rightarrow>
          if ok then
            (case js_toString (property ''_id'' device) of
               Inl e \<Rightarrow> Inl e
             | Inr k \<Rightarrow>
                 Inr (g\<lparr>authorizedDevices := delete_prop (authorizedDevices g) k\<rparr>,
                      [Log (Text (''Successfully removed '' @ k @
                                  '' from the pool of authorized devices.''))]))
          else
            (case js_toString device of
               Inl e \<Rightarrow> Inl e
             | Inr shown \<Rightarrow>
                 Inr (g, [HandleException (''Device data invalid. Device not removed. '' @ shown)])))"

text \<open>The registry test of the three authorization hooks:
  \<^verbatim>\<open>!isEmpty(authorizedDevices[client.id])\<close>.\<close>

definition isAuthorized :: "jsobject \<Rightarrow> string \<Rightarrow> bool" where
  "isAuthorized devices ident = (\<not> isEmpty (get_prop devices ident))"

subsection \<open>The ready event\<close>

text \<open>\<^verbatim>\<open>options.x || config.x.default\<close> for a topic option.\<close>

definition or_default :: "string option \<Rightarrow> string \<Rightarrow> string" where
  "or_default opt dflt = (case opt of None \<Rightarrow> dflt | Some s \<Rightarrow> (if s \<noteq> [] then s else dflt))"

definition ready_qos :: "jsval \<Rightarrow> js_error + number" where
  "ready_qos q = (if q = JNum 0 \<or> isEmpty q then Inr (Number 0) else parseInt q)"

definition ready_devices :: "jsval \<Rightarrow> jsobject \<Rightarrow> js_error + jsobject" where
  "ready_devices registeredDevices devices =
     (if \<not> isEmpty registeredDevices
      then keyBy (property ''_id'') (collection_values registeredDevices)
      else Inr devices)"

definition ready_topics :: "string list \<Rightarrow> string option \<Rightarrow> string list" where
  "ready_topics tmpTopics listed =
     map trim (case listed of
                 None \<Rightarrow> tmpTopics
               | Some s \<Rightarrow> (if s \<noteq> [] then tmpTopics @ split_on CHR '','' s else tmpTopics))"

text \<open>The topics of the handler and its index of authorized topics; nothing here throws.\<close>

definition ready_routes :: "config \<Rightarrow> options \<Rightarrow> routes" where
  "ready_routes cfg opts =
     (let d = or_default (data_topic opts) (data_topic_default cfg);
          m = or_default (message_topic opts) (message_topic_default cfg);
          gm = or_default (groupmessage_topic opts) (groupmessage_topic_default cfg)
      in \<lparr>dataTopic = d, messageTopic = m, groupMessageTopic = gm,
          authorizedTopics = keyBy_strings (uniq (ready_topics [d, m, gm] (authorized_topics opts)))\<rparr>)"

text \<open>
  The handler of the ready event, in the order of the source: \<^verbatim>\<open>qos\<close>, the registry,
  the topics, \<^verbatim>\<open>port\<close> and the broker. It returns the gateway as the handler leaves
  it, and the routes or the exception that ended the handler: what was assigned before
  an exception stays assigned.
\<close>

definition ready :: "config \<Rightarrow> options \<Rightarrow> jsval \<Rightarrow> gateway \<Rightarrow> gateway \<times> (js_error + routes)" where
  "ready cfg opts registeredDevices g =
     (case ready_qos (opt_qos opts) of
        Inl e \<Rightarrow> (g, Inl e)
      | Inr q \<Rightarrow>
          (case ready_devices registeredDevices (authorizedDevices g) of
             Inl e \<Rightarrow> (g\<lparr>qos := Some q\<rparr>, Inl e)
           | Inr devices \<Rightarrow>
               (g\<lparr>qos := Some q, authorizedDevices := devices, port := opt_port opts, server := True\<rparr>,
                Inr (ready_routes cfg opts))))"

text \<open>
  A ready event from the platform. The handler was registered with
  \<^verbatim>\<open>platform.once\<close>: the first event removes it and runs it, and a later event finds no
  handler.
\<close>

definition emit_ready ::
  "config \<Rightarrow> options \<Rightarrow> jsval \<Rightarrow> gateway \<Rightarrow> gateway \<times> (js_error + routes) option" where
  "emit_ready cfg opts registeredDevices g =
     (if ready_listener g
      then (fst (ready cfg opts registeredDevices (g\<lparr>ready_listener := False\<rparr>)),
            Some (snd (ready cfg opts registeredDevices (g\<lparr>ready_listener := False\<rparr>))))
      else (g, None))"

subsection \<open>Published packets\<close>

definition quoted :: "string \<Rightarrow> string" where
  "quoted s = CHR 0x22 # s @ [CHR 0x22]"

definition required_fields :: string where
  "required_fields = quoted ''target'' @ '' and '' @ quoted ''message'' @ '' fields. ''"

definition data_error :: "string \<Rightarrow> string" where
  "data_error rawMessage =
     ''Invalid data sent. Data must be a valid JSON String. Raw Message: '' @ rawMessage"

definition message_error :: string where
  "message_error =
     ''Invalid message or command. Message must be a valid JSON String with '' @ required_fields @
     quoted ''target'' @ '' is a registered Device ID. '' @ quoted ''message'' @ '' is the payload.''"

definition groupmessage_error :: string where
  "groupmessage_error =
     ''Invalid group message or command. Group messages must be a valid JSON String with '' @
     required_fields @
     quoted ''target'' @ '' is a device group id or name. '' @ quoted ''message'' @ '' is the payload.''"

definition acknowledge :: "gateway \<Rightarrow> client \<Rightarrow> string \<Rightarrow> effect" where
  "acknowledge g c note =
     ServerPublish \<lparr>pub_topic = JStr (client_id c), pub_payload = JStr note, pub_messageId = None,
                    pub_qos = qos g, pub_retain = False\<rparr>"

text \<open>
  The callback of the data topic. \<^verbatim>\<open>parsed\<close> is the outcome of
  \<^verbatim>\<open>async.asyncify(JSON.parse)\<close> on the raw message: None when it threw.
\<close>

definition data_published :: "gateway \<Rightarrow> client \<Rightarrow> string \<Rightarrow> jsval option \<Rightarrow> js_error + effect list" where
  "data_published g c rawMessage parsed =
     (case parsed of
        None \<Rightarrow> Inr [Log (Failure (data_error rawMessage))]
      | Some d \<Rightarrow>
          if isEmpty d then Inr [HandleException (data_error rawMessage)]
          else Inr [ProcessData (client_id c) rawMessage,
                    acknowledge g c ''Data Received'',
                    Log (Json (JObj [(''title'', JStr ''MQTT Gateway - Data Received.''),
                                     (''device'', JStr (client_id c)), (''data'', d)]))])"

text \<open>
  The test \<^verbatim>\<open>isEmpty(msg.target) || isEmpty(msg.message)\<close>: \<^verbatim>\<open>msg.message\<close> is read
  only when the target is not empty.
\<close>

definition incomplete :: "jsval \<Rightarrow> js_error + bool" where
  "incomplete msg =
     (case js_get msg ''target'' of
        Inl e \<Rightarrow> Inl e
      | Inr t \<Rightarrow>
          if isEmpty t then Inr True
          else (case js_get msg ''message'' of Inl e \<Rightarrow> Inl e | Inr b \<Rightarrow> Inr (isEmpty b)))"

definition message_published :: "gateway \<Rightarrow> client \<Rightarrow> jsval option \<Rightarrow> js_error + effect list" where
  "message_published g c parsed =
     (case parsed of
        None \<Rightarrow> Inr [HandleException message_error]
      | Some msg \<Rightarrow>
          (case incomplete msg of
             Inl e \<Rightarrow> Inl e
           | Inr bad \<Rightarrow>
               if bad then Inr [HandleException message_error]
               else Inr [SendMessageToDevice (property ''target'' msg) (property ''message'' msg),
                         acknowledge g c ''Device Message Received'',
                         Log (Json (JObj [(''title'', JStr ''MQTT Gateway - Message Sent.''),
                                          (''source'', JStr (client_id c)),
                                          (''target'', property ''target'' msg),
                                          (''message'', msg)]))]))"

definition groupmessage_published :: "gateway \<Rightarrow> client \<Rightarrow> jsval option \<Rightarrow> js_error + effect list" where
  "groupmessage_published g c parsed =
     (case parsed of
        None \<Rightarrow> Inr [HandleException groupmessage_error]
      | Some msg \<Rightarrow>
          (case incomplete msg of
             Inl e \<Rightarrow> Inl e
           | Inr bad \<Rightarrow>
               if bad then Inr [HandleException groupmessage_error]
               else Inr [SendMessageToGroup (property ''target'' msg) (property ''message'' msg),
                         acknowledge g c ''Group Message Received'',
                         Log (Json (JObj [(''title'', JStr ''MQTT Gateway - Group Message Sent.''),
                                          (''source'', JStr (client_id c)),
                                          (''target'', property ''target'' msg),
                                          (''message'', msg)]))]))"

text \<open>
  \<^verbatim>\<open>server.on('published', ...)\<close>. \<^verbatim>\<open>JSON.parse\<close> is the argument \<^verbatim>\<open>json_parse\<close>
  (None where it throws a SyntaxError). A packet on any other topic is ignored. An
  exception thrown inside the final callback of \<^verbatim>\<open>async.waterfall\<close> is not caught
  by the handler.
\<close>

definition published ::
  "(string \<Rightarrow> jsval option) \<Rightarrow> gateway \<Rightarrow> routes \<Rightarrow> packet \<Rightarrow> client \<Rightarrow> js_error + effect list" where
  "published json_parse g r message c =
     (let rawMessage = payload message in
      if topic message = dataTopic r then data_published g c rawMessage (json_parse rawMessage)
      else if topic message = messageTopic r then message_published g c (json_parse rawMessage)
      else if topic message = groupMessageTopic r then groupmessage_published g c (json_parse rawMessage)
      else Inr [])"

subsection \<open>Authorization hooks\<close>




section \<open>Sequences of registry events\<close>

text \<open>
  The platform delivers add-device and remove-device events one at a time; a sequence of
  them is run from left to right, and an exception thrown by a handler ends the run.
\<close>

datatype registry_event = AddDevice jsval | RemoveDevice jsval

fun handle_event :: "registry_event \<Rightarrow> gateway \<Rightarrow> js_error + gateway \<times> effect list" where
  "handle_event (AddDevice d) g = adddevice d g"
| "handle_event (RemoveDevice d) g = removedevice d g"

fun deliver :: "registry_event list \<Rightarrow> gateway \<Rightarrow> js_error + gateway \<times> effect list" where
  "deliver [] g = Inr (g, [])"
| "deliver (e # es) g =
     (case handle_event e g of
        Inl x \<Rightarrow> Inl x
      | Inr (g', out) \<Rightarrow>
          (case deliver es g' of Inl x \<Rightarrow> Inl x | Inr (g'', out') \<Rightarrow> Inr (g'', out @ out')))"

fun event_device :: "registry_event \<Rightarrow> jsval" where
  "event_device (AddDevice d) = d"
| "event_device (RemoveDevice d) = d"

fun is_add :: "registry_event \<Rightarrow> bool" where
  "is_add (AddDevice d) = True"
| "is_add (RemoveDevice d) = False"

text \<open>
  A valid event for an identity: its device passes the handlers' test and its
  \<^verbatim>\<open>_id\<close>, as a property name, is that identity.
\<close>

definition concerns :: "string \<Rightarrow> registry_event \<Rightarrow> bool" where
  "concerns ident e =
     (valid_device (event_device e) = Inr True \<and>
      js_toString (property ''_id'' (event_device e)) = Inr ident)"

definition last_event :: "string \<Rightarrow> registry_event list \<Rightarrow> registry_event option" where
  "last_event ident es =
     (case filter (concerns ident) es of [] \<Rightarrow> None | x # xs \<Rightarrow> Some (last (x # xs)))"

section \<open>Notions the properties are stated with\<close>

text \<open>The records of a snapshot that \<^verbatim>\<open>keyBy\<close> files under a given key, in order.\<close>

definition records_keyed :: "string \<Rightarrow> jsval \<Rightarrow> jsval list" where
  "records_keyed k snapshot =
     filter (\<lambda>x. js_toString (property ''_id'' x) = Inr k) (collection_values snapshot)"

text \<open>A record with a usable identity: an object whose \<^verbatim>\<open>_id\<close> is a non-empty string
  other than \<^verbatim>\<open>__proto__\<close>.\<close>

fun usable_record :: "jsval \<Rightarrow> bool" where
  "usable_record (JObj kvs) =
     (case obj_get kvs ''_id'' of JStr s \<Rightarrow> s \<noteq> [] \<and> s \<noteq> ''__proto__'' | v \<Rightarrow> False)"
| "usable_record v = False"



text \<open>The key \<^verbatim>\<open>keyBy\<close> files a record under, where the conversion does not throw.\<close>

definition record_key :: "jsval \<Rightarrow> string" where
  "record_key x = (case js_toString (property ''_id'' x) of Inr k \<Rightarrow> k | Inl e \<Rightarrow> [])"

text \<open>The packets a handler hands to \<^verbatim>\<open>server.publish\<close>.\<close>

fun publications :: "effect list \<Rightarrow> publication list" where
  "publications [] = []"
| "publications (ServerPublish p # es) = p # publications es"
| "publications (e # es) = publications es"

section \<open>A sample configuration\<close>

definition sample_config :: config where
  "sample_config = \<lparr>data_topic_default = ''data'', message_topic_default = ''message'',
                     groupmessage_topic_default = ''groupmessage''\<rparr>"

definition sample_options :: options where
  "sample_options = \<lparr>opt_qos = JStr ''1'', opt_port = JNum 1883, data_topic = None, message_topic = None,
                      groupmessage_topic = None, authorized_topics = Some ''news, alerts,''\<rparr>"

text \<open>Options that name one topic for both telemetry and direct messages.\<close>

definition shared_topic_options :: options where
  "shared_topic_options = \<lparr>opt_qos = JUndefined, opt_port = JNum 1883, data_topic = Some ''cmd'',
                           message_topic = Some ''cmd'', groupmessage_topic = None,
                           authorized_topics = None\<rparr>"

definition sample_routes :: routes where
  "sample_routes = ready_routes sample_config sample_options"

definition sample_gateway :: gateway where
  "sample_gateway = fst (ready sample_config sample_options JUndefined initial)"

text \<open>
  Two payloads, \<^verbatim>\<open>{"temp":21}\<close> and \<^verbatim>\<open>{"target":"dev1"}\<close>, and what \<^verbatim>\<open>JSON.parse\<close>
  returns on the payloads of the examples. The only other payload the examples use,
  \<^verbatim>\<open>garbage\<close>, is not JSON.
\<close>

definition temp_payload :: string where
  "temp_payload = ''{'' @ quoted ''temp'' @ '':21}''"

definition target_only_payload :: string where
  "target_only_payload = ''{'' @ quoted ''target'' @ '':'' @ quoted ''dev1'' @ ''}''"

definition sample_parse :: "string \<Rightarrow> jsval option" where
  "sample_parse s =
     (if s = temp_payload then Some (JObj [(''temp'', JNum 21)])
      else if s = target_only_payload then Some (JObj [(''target'', JStr ''dev1'')])
      else if s = ''{}'' then Some (JObj [])
      else if s = ''null'' then Some JNull
      else if s = ''21'' then Some (JNum 21)
      else None)"

text \<open>Devices of the examples: two ordinary ones, one named \<^verbatim>\<open>__proto__\<close>, and one with an
  empty \<^verbatim>\<open>_id\<close> and a property \<^verbatim>\<open>toString\<close>.\<close>

definition dev1 :: jsval where
  "dev1 = JObj [(''_id'', JStr ''dev1'')]"

definition dev2 :: jsval where
  "dev2 = JObj [(''_id'', JStr ''dev2'')]"

definition proto_device :: jsval where
  "proto_device = JObj [(''_id'', JStr ''__proto__'')]"

definition unprintable_device :: jsval where
  "unprintable_device = JObj [(''_id'', JStr ''''), (''toString'', JStr ''x'')]"

text \<open>A snapshot with two records for \<^verbatim>\<open>dev1\<close>, and a gateway that has had \<^verbatim>\<open>dev0\<close> added.\<close>

definition sample_snapshot :: jsval where
  "sample_snapshot =
     JArr [JObj [(''_id'', JStr ''dev1''), (''name'', JStr ''old'')], dev2,
           JObj [(''_id'', JStr ''dev1''), (''name'', JStr ''new'')]]"

definition stocked :: gateway where
  "stocked = initial\<lparr>authorizedDevices :=
                        \<lparr>own = [(''dev0'', JObj [(''_id'', JStr ''dev0'')])], proto = ObjectPrototype\<rparr>\<rparr>"

section \<open>Properties of objects used as maps\<close>

lemma get_prop_empty: "get_prop empty_object k = JUndefined"
  by (simp add: get_prop_def empty_object_def)

lemma set_prop_ordinary:
  "k \<noteq> ''__proto__'' \<Longrightarrow> set_prop obj k v = obj\<lparr>own := AList.update k v (own obj)\<rparr>"
  by (simp add: set_prop_def)

lemma get_prop_set_prop:
  "k \<noteq> ''__proto__'' \<Longrightarrow> get_prop (set_prop obj k v) k' = (if k' = k then v else get_prop obj k')"
  by (simp add: set_prop_ordinary get_prop_def update_conv split: option.splits)

lemma proto_set_prop: "k \<noteq> ''__proto__'' \<Longrightarrow> proto (set_prop obj k v) = proto obj"
  by (simp add: set_prop_ordinary)

lemma proto_delete_prop: "proto (delete_prop obj k) = proto obj"
  by (simp add: delete_prop_def)

lemma get_prop_delete_prop:
  "get_prop (delete_prop obj k) k' = (if k' = k then inherited (proto obj) k else get_prop obj k')"
  by (simp add: delete_prop_def get_prop_def delete_conv split: option.splits)

lemma js_get_defined: "v \<noteq> JUndefined \<Longrightarrow> v \<noteq> JNull \<Longrightarrow> js_get v k = Inr (property k v)"
  by (cases v) simp_all

lemma js_get_nonempty: "\<not> isEmpty d \<Longrightarrow> js_get d k = Inr (property k d)"
  by (cases d) simp_all

text \<open>The handlers' test never throws: \<^verbatim>\<open>device._id\<close> is read of a non-empty value only.\<close>

lemma valid_device_total:
  "valid_device d = Inr (\<not> isEmpty d \<and> \<not> isEmpty (property ''_id'' d))"
  by (simp add: valid_device_def js_get_nonempty)

section \<open>Properties of the device registry\<close>

lemma last_event_Nil: "last_event ident [] = None"
  by (simp add: last_event_def)

lemma last_event_Cons:
  "last_event ident (e # es) =
     (case last_event ident es of
        Some ev \<Rightarrow> Some ev
      | None \<Rightarrow> if concerns ident e then Some e else None)"
  by (simp add: last_event_def split: list.splits)

text \<open>
  An event that is not one for the key \<^verbatim>\<open>__proto__\<close>, handled without an exception
  on a registry whose prototype is \<^verbatim>\<open>Object.prototype\<close>, leaves the prototype alone
  and decides the identity it is a valid event for.
\<close>

lemma handle_event_registry:
  assumes "handle_event e g = Inr (g', out)"
    and "\<not> concerns ''__proto__'' e"
    and "proto (authorizedDevices g) = ObjectPrototype"
  shows "proto (authorizedDevices g') = ObjectPrototype \<and>
         isAuthorized (authorizedDevices g') ident =
           (if concerns ident e then is_add e else isAuthorized (authorizedDevices g) ident)"
proof (cases "valid_device (event_device e) = Inr True")
  case False
  then have "\<not> concerns ident e" by (simp add: concerns_def)
  moreover have "g' = g"
    using assms(1) False
    by (cases e) (auto simp: adddevice_def removedevice_def valid_device_total split: sum.splits)
  ultimately show ?thesis using assms(3) by simp
next
  case True
  then have ne: "\<not> isEmpty (event_device e)"
    by (simp add: valid_device_total)
  obtain k where k: "js_toString (property ''_id'' (event_device e)) = Inr k"
    using assms(1) True
    by (cases e) (auto simp: adddevice_def removedevice_def split: sum.splits)
  have kp: "k \<noteq> ''__proto__''"
    using assms(2) True k by (auto simp: concerns_def)
  have c: "concerns ident e \<longleftrightarrow> ident = k"
    using True k by (auto simp: concerns_def)
  show ?thesis
  proof (cases e)
    case (AddDevice d)
    then have "authorizedDevices g' = set_prop (authorizedDevices g) k d"
      using assms(1) True k by (auto simp: adddevice_def)
    then show ?thesis
      using AddDevice kp c ne assms(3)
      by (simp add: isAuthorized_def get_prop_set_prop proto_set_prop)
  next
    case (RemoveDevice d)
    then have "authorizedDevices g' = delete_prop (authorizedDevices g) k"
      using assms(1) True k by (auto simp: removedevice_def)
    then show ?thesis
      using RemoveDevice c assms(3)
      by (simp add: isAuthorized_def get_prop_delete_prop proto_delete_prop)
  qed
qed

text \<open>
  So, for a run of events that throws no exception and has no valid event for the key
  \<^verbatim>\<open>__proto__\<close>: the last valid event for an identity decides, and without one the
  identity is authorized as it was before.
\<close>

lemma deliver_registry:
  assumes "deliver es g = Inr (g', out)"
    and "list_all (\<lambda>e. \<not> concerns ''__proto__'' e) es"
    and "proto (authorizedDevices g) = ObjectPrototype"
  shows "isAuthorized (authorizedDevices g') ident =
           (case last_event ident es of
              Some ev \<Rightarrow> is_add ev
            | None \<Rightarrow> isAuthorized (authorizedDevices g) ident)"
  using assms
proof (induction es arbitrary: g out)
  case Nil
  then show ?case by (simp add: last_event_Nil)
next
  case (Cons e es)
  obtain g1 out1 where h: "handle_event e g = Inr (g1, out1)"
    using Cons.prems(1) by (auto split: sum.splits)
  obtain out2 where d: "deliver es g1 = Inr (g', out2)"
    using Cons.prems(1) h by (auto split: sum.splits)
  have e: "\<not> concerns ''__proto__'' e" and es: "list_all (\<lambda>e. \<not> concerns ''__proto__'' e) es"
    using Cons.prems(2) by simp_all
  have a1: "proto (authorizedDevices g1) = ObjectPrototype"
    and a2: "isAuthorized (authorizedDevices g1) ident =
       (if concerns ident e then is_add e else isAuthorized (authorizedDevices g) ident)"
    using handle_event_registry [OF h e Cons.prems(3), of ident] by simp_all
  have "isAuthorized (authorizedDevices g') ident =
       (case last_event ident es of
          Some ev \<Rightarrow> is_add ev
        | None \<Rightarrow> isAuthorized (authorizedDevices g1) ident)"
    using Cons.IH [OF d es a1] .
  then show ?case
    using a2 by (simp add: last_event_Cons split: option.splits)
qed

lemma not_authorized_initial: "\<not> isAuthorized (authorizedDevices initial) ident"
  by (simp add: initial_def isAuthorized_def get_prop_empty)

lemma proto_initial: "proto (authorizedDevices initial) = ObjectPrototype"
  by (simp add: initial_def empty_object_def)

text \<open>From the empty registry of a freshly loaded module.\<close>

lemma deliver_registry_initial:
  assumes "deliver es initial = Inr (g', out)"
    and "list_all (\<lambda>e. \<not> concerns ''__proto__'' e) es"
  shows "isAuthorized (authorizedDevices g') ident =
           (case last_event ident es of Some ev \<Rightarrow> is_add ev | None \<Rightarrow> False)"
  using deliver_registry [OF assms proto_initial, of ident]
  by (cases "last_event ident es") (simp_all add: not_authorized_initial)

text \<open>
  Claim C3 fails for a device named \<^verbatim>\<open>__proto__\<close>. Adding it assigns the device to
  \<^verbatim>\<open>authorizedDevices['__proto__']\<close>, which makes the device the prototype of the
  registry; removing it deletes an own property that does not exist. The last valid
  event for \<^verbatim>\<open>__proto__\<close> is then the removal, and there is no event for \<^verbatim>\<open>_id\<close>,
  yet both identities are authorized: the first reads the prototype, the second the
  property \<^verbatim>\<open>_id\<close> that the registry inherits from it.
\<close>

theorem proto_device_survives_removal:
  "last_event ''__proto__'' [AddDevice proto_device, RemoveDevice proto_device] =
     Some (RemoveDevice proto_device) \<and>
   last_event ''_id'' [AddDevice proto_device, RemoveDevice proto_device] = None \<and>
   (\<exists>g out. deliver [AddDevice proto_device, RemoveDevice proto_device] initial = Inr (g, out) \<and>
      isAuthorized (authorizedDevices g) ''__proto__'' \<and>
      isAuthorized (authorizedDevices g) ''_id'')"
  by (simp add: last_event_def concerns_def valid_device_total proto_device_def obj_get_def
      adddevice_def removedevice_def set_prop_def reaches_accessor_def initial_def empty_object_def
      delete_prop_def isAuthorized_def get_prop_def)

text \<open>A handler also throws where \<^verbatim>\<open>device._id\<close> cannot be converted to a property name.\<close>

lemma unconvertible_id_throws:
  "adddevice (JObj [(''_id'', JObj [(''toString'', JNum 1)])]) g =
     Inl (TypeError ''Cannot convert object to primitive value'')"
  by (simp add: adddevice_def valid_device_total obj_get_def)

text \<open>
  An add-device event whose device is empty, or whose \<^verbatim>\<open>_id\<close> is empty, never changes
  the gateway, and it reports the failure through \<^verbatim>\<open>handleException\<close> where the
  device can be converted to a string.
\<close>

lemma invalid_device_reported:
  assumes "isEmpty device \<or> isEmpty (property ''_id'' device)"
    and "js_toString device = Inr shown"
  shows "adddevice device g =
           Inr (g, [HandleException (''Device data invalid. Device not added. '' @ shown)])"
  using assms by (auto simp: adddevice_def valid_device_total)

lemma invalid_device_changes_nothing:
  assumes "isEmpty device \<or> isEmpty (property ''_id'' device)"
    and "adddevice device g = Inr (g', out)"
  shows "g' = g"
  using assms by (auto simp: adddevice_def valid_device_total split: sum.splits)

text \<open>
  Claim C8 fails for a device with an empty \<^verbatim>\<open>_id\<close> and an own property
  \<^verbatim>\<open>toString\<close>: the message of the Error is built with the template literal
  \<^verbatim>\<open>${device}\<close>, whose conversion of the device throws a TypeError, so the handler ends
  before it calls \<^verbatim>\<open>handleException\<close> and nothing is reported.
\<close>

theorem unprintable_device_not_reported:
  "isEmpty (property ''_id'' unprintable_device) \<and>
   adddevice unprintable_device g = Inl (TypeError ''Cannot convert object to primitive value'')"
  by (simp add: unprintable_device_def adddevice_def valid_device_total obj_get_def)

section \<open>Initialization from a snapshot\<close>

lemma usable_record_key:
  "usable_record x \<Longrightarrow>
   js_toString (property ''_id'' x) = Inr (record_key x) \<and> record_key x \<noteq> ''__proto__''"
  by (cases x) (auto simp: record_key_def split: jsval.splits)

lemma keyBy_from_usable:
  "list_all usable_record xs \<Longrightarrow>
   keyBy_from acc (property ''_id'') xs =
     Inr (acc\<lparr>own := foldl (\<lambda>al x. AList.update (record_key x) x al) (own acc) xs\<rparr>)"
proof (induction xs arbitrary: acc)
  case Nil
  show ?case by simp
next
  case (Cons x xs)
  then have u: "usable_record x" and us: "list_all usable_record xs"
    by simp_all
  show ?case
    using usable_record_key [OF u] Cons.IH [OF us]
    by (simp add: set_prop_ordinary)
qed

lemma map_of_foldl_update:
  "map_of (foldl (\<lambda>al x. AList.update (f x) x al) al0 xs) k =
     (if filter (\<lambda>x. f x = k) xs = [] then map_of al0 k
      else Some (last (filter (\<lambda>x. f x = k) xs)))"
proof (induction xs rule: rev_induct)
  case Nil
  show ?case by simp
next
  case (snoc x xs)
  show ?case
  proof (cases "f x = k")
    case True
    then show ?thesis by (simp add: update_conv)
  next
    case False
    then show ?thesis using snoc.IH by (simp add: update_conv)
  qed
qed

lemma distinct_foldl_update:
  "distinct (map fst al0) \<Longrightarrow> distinct (map fst (foldl (\<lambda>al x. AList.update (f x) x al) al0 xs))"
  by (induction xs rule: rev_induct) (simp_all add: distinct_update)

lemma usable_filter:
  "list_all usable_record xs \<Longrightarrow>
   filter (\<lambda>x. record_key x = k) xs = filter (\<lambda>x. js_toString (property ''_id'' x) = Inr k) xs"
  by (induction xs) (auto dest: usable_record_key)

text \<open>The registry that the ready handler builds from a snapshot of usable records.\<close>

lemma ready_devices_usable:
  assumes "\<not> isEmpty snapshot" and "list_all usable_record (collection_values snapshot)"
  shows "\<exists>reg. ready_devices snapshot devices = Inr reg \<and>
           proto reg = ObjectPrototype \<and>
           map_of (own reg) k =
             (if records_keyed k snapshot = [] then None else Some (last (records_keyed k snapshot))) \<and>
           distinct (map fst (own reg))"
proof -
  let ?xs = "collection_values snapshot"
  let ?al = "foldl (\<lambda>al x. AList.update (record_key x) x al) [] ?xs"
  have r: "ready_devices snapshot devices = Inr (empty_object\<lparr>own := ?al\<rparr>)"
    using assms keyBy_from_usable [OF assms(2), of empty_object]
    by (simp add: ready_devices_def keyBy_def empty_object_def)
  have m: "map_of ?al k =
             (if records_keyed k snapshot = [] then None else Some (last (records_keyed k snapshot)))"
    using usable_filter [OF assms(2), of k]
    by (simp add: map_of_foldl_update records_keyed_def)
  have d: "distinct (map fst ?al)"
    by (rule distinct_foldl_update) simp
  show ?thesis
    using r m d by (simp add: empty_object_def)
qed

lemma ready_registry_unchanged:
  "isEmpty snapshot \<Longrightarrow> authorizedDevices (fst (ready cfg opts snapshot g)) = authorizedDevices g"
  by (simp add: ready_def ready_devices_def split: sum.splits)

lemma ready_returned:
  assumes "snd (ready cfg opts snapshot g) = Inr r"
  shows "r = ready_routes cfg opts \<and>
         ready_devices snapshot (authorizedDevices g) =
           Inr (authorizedDevices (fst (ready cfg opts snapshot g)))"
  using assms by (auto simp: ready_def split: sum.splits)

text \<open>
  Claim C4, as amended. Where the ready handler returns, a non-empty snapshot whose
  records all have a usable identity replaces the registry: afterwards the registry has
  exactly one entry for every identity that a record of the snapshot has, the entry is
  the last record of that identity, and nothing depends on the registry before. An
  empty snapshot leaves the registry as it was. The handler runs for the first ready
  event only: a later ready event, whatever its snapshot, leaves the gateway as it was.
\<close>

theorem ready_replaces_registry:
  "(snd (ready cfg opts snapshot g) = Inr r \<and> \<not> isEmpty snapshot \<and>
    list_all usable_record (collection_values snapshot) \<longrightarrow>
      get_prop (authorizedDevices (fst (ready cfg opts snapshot g))) k =
        (if records_keyed k snapshot = [] then JUndefined else last (records_keyed k snapshot)) \<and>
      (k \<in> fst ` set (own (authorizedDevices (fst (ready cfg opts snapshot g)))) \<longleftrightarrow>
         records_keyed k snapshot \<noteq> []) \<and>
      distinct (map fst (own (authorizedDevices (fst (ready cfg opts snapshot g))))) \<and>
      proto (authorizedDevices (fst (ready cfg opts snapshot g))) = ObjectPrototype) \<and>
   (isEmpty snapshot \<longrightarrow>
      authorizedDevices (fst (ready cfg opts snapshot g)) = authorizedDevices g) \<and>
   (\<not> ready_listener g \<longrightarrow> emit_ready cfg opts snapshot g = (g, None))"
proof (intro conjI impI)
  assume a: "snd (ready cfg opts snapshot g) = Inr r \<and> \<not> isEmpty snapshot \<and>
    list_all usable_record (collection_values snapshot)"
  let ?reg = "authorizedDevices (fst (ready cfg opts snapshot g))"
  obtain reg where reg: "ready_devices snapshot (authorizedDevices g) = Inr reg"
    and p: "proto reg = ObjectPrototype"
    and m: "map_of (own reg) k =
             (if records_keyed k snapshot = [] then None else Some (last (records_keyed k snapshot)))"
    and d: "distinct (map fst (own reg))"
    using ready_devices_usable [of snapshot "authorizedDevices g" k] a by blast
  have e: "?reg = reg"
    using ready_returned [of cfg opts snapshot g r] a reg by simp
  show "get_prop ?reg k =
        (if records_keyed k snapshot = [] then JUndefined else last (records_keyed k snapshot))"
    using e p m by (simp add: get_prop_def)
  have "k \<in> fst ` set (own reg) \<longleftrightarrow> map_of (own reg) k \<noteq> None"
    by (simp add: map_of_eq_None_iff)
  then show "k \<in> fst ` set (own ?reg) \<longleftrightarrow> records_keyed k snapshot \<noteq> []"
    using e m by simp
  show "distinct (map fst (own ?reg))"
    using e d by simp
  show "proto ?reg = ObjectPrototype"
    using e p by simp
next
  assume "isEmpty snapshot"
  then show "authorizedDevices (fst (ready cfg opts snapshot g)) = authorizedDevices g"
    by (rule ready_registry_unchanged)
next
  assume "\<not> ready_listener g"
  then show "emit_ready cfg opts snapshot g = (g, None)"
    by (simp add: emit_ready_def)
qed

lemma sample_qos: "ready_qos (opt_qos sample_options) = Inr (Number 1)"
  by (simp add: sample_options_def ready_qos_def parseInt_def parseInt_string_def js_space_def
      digit_of_def)

lemma sample_snapshot_usable:
  "\<not> isEmpty sample_snapshot" "list_all usable_record (collection_values sample_snapshot)"
  by (simp_all add: sample_snapshot_def dev2_def obj_get_def)

lemma sample_snapshot_returns:
  "snd (ready sample_config sample_options sample_snapshot g) =
     Inr (ready_routes sample_config sample_options)"
proof -
  obtain reg where "ready_devices sample_snapshot (authorizedDevices g) = Inr reg"
    using ready_devices_usable [OF sample_snapshot_usable] by blast
  then show ?thesis
    by (simp add: ready_def sample_qos)
qed

theorem ready_replaces_registry_witness:
  "get_prop (authorizedDevices (fst (ready sample_config sample_options sample_snapshot stocked)))
     ''dev1'' = JObj [(''_id'', JStr ''dev1''), (''name'', JStr ''new'')] \<and>
   ''dev0'' \<notin> fst ` set (own (authorizedDevices
                (fst (ready sample_config sample_options sample_snapshot stocked)))) \<and>
   authorizedDevices (fst (ready sample_config sample_options (JArr []) stocked)) =
     authorizedDevices stocked \<and>
   emit_ready sample_config sample_options sample_snapshot (stocked\<lparr>ready_listener := False\<rparr>) =
     (stocked\<lparr>ready_listener := False\<rparr>, None)"
proof -
  have a: "snd (ready sample_config sample_options sample_snapshot stocked) =
             Inr (ready_routes sample_config sample_options) \<and>
           \<not> isEmpty sample_snapshot \<and> list_all usable_record (collection_values sample_snapshot)"
    using sample_snapshot_returns sample_snapshot_usable by simp
  have k1: "records_keyed ''dev1'' sample_snapshot =
              [JObj [(''_id'', JStr ''dev1''), (''name'', JStr ''old'')],
               JObj [(''_id'', JStr ''dev1''), (''name'', JStr ''new'')]]"
    by (simp add: records_keyed_def sample_snapshot_def dev2_def obj_get_def)
  have k0: "records_keyed ''dev0'' sample_snapshot = []"
    by (simp add: records_keyed_def sample_snapshot_def dev2_def obj_get_def)
  have e: "isEmpty (JArr [])" by simp
  have l: "\<not> ready_listener (stocked\<lparr>ready_listener := False\<rparr>)" by simp
  show ?thesis
    using ready_replaces_registry [of sample_config sample_options sample_snapshot stocked
        "ready_routes sample_config sample_options" "''dev1''"]
      ready_replaces_registry [of sample_config sample_options sample_snapshot stocked
        "ready_routes sample_config sample_options" "''dev0''"]
      ready_replaces_registry [of sample_config sample_options "JArr []" stocked
        "ready_routes sample_config sample_options" "''dev0''"]
      ready_replaces_registry [of sample_config sample_options sample_snapshot
        "stocked\<lparr>ready_listener := False\<rparr>" "ready_routes sample_config sample_options" "''dev0''"]
      a k1 k0 e l
    by simp
qed

text \<open>
  A second ready event does not initialize again: the handler was registered with
  \<^verbatim>\<open>platform.once\<close>. After a ready event with \<^verbatim>\<open>dev1\<close> and another with \<^verbatim>\<open>dev2\<close>,
  the registry is that of the first.
\<close>

theorem second_ready_event_ignored:
  "isAuthorized
     (authorizedDevices
       (fst (emit_ready sample_config sample_options (JArr [dev2])
              (fst (emit_ready sample_config sample_options (JArr [dev1]) initial)))))
     ''dev1'' \<and>
   \<not> isAuthorized
     (authorizedDevices
       (fst (emit_ready sample_config sample_options (JArr [dev2])
              (fst (emit_ready sample_config sample_options (JArr [dev1]) initial)))))
     ''dev2''"
  by (simp add: emit_ready_def initial_def ready_def sample_qos ready_devices_def keyBy_def
      dev1_def dev2_def obj_get_def set_prop_def empty_object_def isAuthorized_def get_prop_def)

text \<open>
  The ready handler does not test the \<^verbatim>\<open>_id\<close> of a record as the add-device handler
  does: a record with no \<^verbatim>\<open>_id\<close> is stored under the key \<^verbatim>\<open>undefined\<close>, and a client
  of that name is then authorized.
\<close>

lemma record_without_id_is_stored:
  "authorizedDevices (fst (ready sample_config sample_options (JArr [JObj [(''name'', JStr ''x'')]]) initial)) =
     \<lparr>own = [(''undefined'', JObj [(''name'', JStr ''x'')])], proto = ObjectPrototype\<rparr> \<and>
   isAuthorized
     (authorizedDevices (fst (ready sample_config sample_options (JArr [JObj [(''name'', JStr ''x'')]]) initial)))
     ''undefined''"
  by (simp add: initial_def ready_def sample_qos ready_devices_def keyBy_def obj_get_def
      set_prop_def empty_object_def isAuthorized_def get_prop_def)

section \<open>Authorization\<close>
















section \<open>Routing of published packets\<close>

lemma sample_routes_topics:
  "dataTopic sample_routes = ''data''" "messageTopic sample_routes = ''message''"
  "groupMessageTopic sample_routes = ''groupmessage''"
  by (simp_all add: sample_routes_def ready_routes_def Let_def sample_config_def sample_options_def
      or_default_def)

lemma sample_gateway_qos: "qos sample_gateway = Some (Number 1)"
  by (simp add: sample_gateway_def ready_def sample_qos ready_devices_def)

lemma sample_gateway_server: "server sample_gateway"
  by (simp add: sample_gateway_def ready_def sample_qos ready_devices_def)

lemma sample_parse_payloads:
  "sample_parse temp_payload = Some (JObj [(''temp'', JNum 21)])"
  "sample_parse target_only_payload = Some (JObj [(''target'', JStr ''dev1'')])"
  "sample_parse ''{}'' = Some (JObj [])"
  "sample_parse ''null'' = Some JNull"
  "sample_parse ''21'' = Some (JNum 21)"
  "sample_parse ''garbage'' = None"
  by (simp_all add: sample_parse_def temp_payload_def target_only_payload_def quoted_def)

text \<open>
  Claim C5. A packet published on the data topic whose payload parses to a document that
  is not empty (for \<^verbatim>\<open>isEmpty\<close>: an object with a property, a non-empty array or
  string) makes the router call \<^verbatim>\<open>processData\<close> with the client's id and the raw
  payload first, then publish \<^verbatim>\<open>Data Received\<close> to the topic named by the client's id,
  with the gateway's quality of service and retain false, and then log.
\<close>

theorem data_dispatched_then_acknowledged:
  assumes "topic message = dataTopic r"
    and "json_parse (payload message) = Some d"
    and "\<not> isEmpty d"
  shows "published json_parse g r message c =
           Inr [ProcessData (client_id c) (payload message),
                ServerPublish \<lparr>pub_topic = JStr (client_id c), pub_payload = JStr ''Data Received'',
                               pub_messageId = None, pub_qos = qos g, pub_retain = False\<rparr>,
                Log (Json (JObj [(''title'', JStr ''MQTT Gateway - Data Received.''),
                                 (''device'', JStr (client_id c)), (''data'', d)]))]"
  using assms by (simp add: published_def data_published_def acknowledge_def)

theorem data_dispatched_then_acknowledged_witness:
  "published sample_parse sample_gateway sample_routes \<lparr>topic = ''data'', payload = temp_payload\<rparr>
     \<lparr>client_id = ''dev1''\<rparr> =
   Inr [ProcessData ''dev1'' temp_payload,
        ServerPublish \<lparr>pub_topic = JStr ''dev1'', pub_payload = JStr ''Data Received'',
                       pub_messageId = None, pub_qos = Some (Number 1), pub_retain = False\<rparr>,
        Log (Json (JObj [(''title'', JStr ''MQTT Gateway - Data Received.''),
                         (''device'', JStr ''dev1''), (''data'', JObj [(''temp'', JNum 21)])]))]"
  using data_dispatched_then_acknowledged [of "\<lparr>topic = ''data'', payload = temp_payload\<rparr>"
      sample_routes sample_parse "JObj [(''temp'', JNum 21)]" sample_gateway "\<lparr>client_id = ''dev1''\<rparr>"]
  by (simp add: sample_routes_topics sample_parse_payloads sample_gateway_qos)

text \<open>
  Claim C6. On the data topic, a payload that does not parse is reported with
  \<^verbatim>\<open>platform.log\<close> and nothing else happens; a payload that parses to an empty document
  is reported with \<^verbatim>\<open>handleException\<close> and nothing else happens. In neither case is
  \<^verbatim>\<open>processData\<close> called or an acknowledgment published.
\<close>

theorem data_failures:
  assumes "topic message = dataTopic r"
  shows "(json_parse (payload message) = None \<longrightarrow>
            published json_parse g r message c = Inr [Log (Failure (data_error (payload message)))]) \<and>
         (\<forall>d. json_parse (payload message) = Some d \<and> isEmpty d \<longrightarrow>
            published json_parse g r message c = Inr [HandleException (data_error (payload message))])"
  using assms by (simp add: published_def data_published_def)

theorem data_failures_witness:
  "published sample_parse sample_gateway sample_routes \<lparr>topic = ''data'', payload = ''garbage''\<rparr>
     \<lparr>client_id = ''dev1''\<rparr> = Inr [Log (Failure (data_error ''garbage''))] \<and>
   published sample_parse sample_gateway sample_routes \<lparr>topic = ''data'', payload = ''{}''\<rparr>
     \<lparr>client_id = ''dev1''\<rparr> = Inr [HandleException (data_error ''{}'')]"
  using data_failures [of "\<lparr>topic = ''data'', payload = ''garbage''\<rparr>" sample_routes sample_parse
      sample_gateway "\<lparr>client_id = ''dev1''\<rparr>"]
    data_failures [of "\<lparr>topic = ''data'', payload = ''{}''\<rparr>" sample_routes sample_parse
      sample_gateway "\<lparr>client_id = ''dev1''\<rparr>"]
  by (simp add: sample_routes_topics sample_parse_payloads)

text \<open>A number is empty for \<^verbatim>\<open>isEmpty\<close>: the payload \<^verbatim>\<open>21\<close> is refused like \<^verbatim>\<open>{}\<close>.\<close>

lemma number_payload_refused:
  "published sample_parse sample_gateway sample_routes \<lparr>topic = ''data'', payload = ''21''\<rparr>
     \<lparr>client_id = ''dev1''\<rparr> = Inr [HandleException (data_error ''21'')]"
  by (simp add: published_def data_published_def sample_routes_topics sample_parse_payloads)

lemma incomplete_defined:
  "msg \<noteq> JUndefined \<Longrightarrow> msg \<noteq> JNull \<Longrightarrow>
   incomplete msg = Inr (isEmpty (property ''target'' msg) \<or> isEmpty (property ''message'' msg))"
  by (simp add: incomplete_def js_get_defined)

lemma required_fields_named:
  "sublist (quoted ''target'') required_fields" "sublist (quoted ''message'') required_fields"
proof -
  show "sublist (quoted ''target'') required_fields"
    unfolding required_fields_def by (rule prefix_imp_sublist) simp
  show "sublist (quoted ''message'') required_fields"
    unfolding required_fields_def sublist_def
    by (rule exI [of _ "quoted ''target'' @ '' and ''"], rule exI [of _ "'' fields. ''"]) simp
qed

lemma message_error_fields:
  "sublist (quoted ''target'') message_error" "sublist (quoted ''message'') message_error"
proof -
  have r: "sublist required_fields message_error"
    unfolding message_error_def by (rule sublist_appendI)
  show "sublist (quoted ''target'') message_error"
    using required_fields_named(1) r by (rule sublist_order.order_trans)
  show "sublist (quoted ''message'') message_error"
    using required_fields_named(2) r by (rule sublist_order.order_trans)
qed

lemma groupmessage_error_fields:
  "sublist (quoted ''target'') groupmessage_error" "sublist (quoted ''message'') groupmessage_error"
proof -
  have r: "sublist required_fields groupmessage_error"
    unfolding groupmessage_error_def by (rule sublist_appendI)
  show "sublist (quoted ''target'') groupmessage_error"
    using required_fields_named(1) r by (rule sublist_order.order_trans)
  show "sublist (quoted ''message'') groupmessage_error"
    using required_fields_named(2) r by (rule sublist_order.order_trans)
qed

lemma message_published_failure:
  assumes "parsed = None \<or>
           (\<exists>msg. parsed = Some msg \<and> msg \<noteq> JNull \<and> msg \<noteq> JUndefined \<and>
                  (isEmpty (property ''target'' msg) \<or> isEmpty (property ''message'' msg)))"
  shows "message_published g c parsed = Inr [HandleException message_error]"
    and "groupmessage_published g c parsed = Inr [HandleException groupmessage_error]"
  using assms
  by (auto simp: message_published_def groupmessage_published_def incomplete_defined)

text \<open>
  Claim C7, as amended. A packet published on the direct-message topic or on the
  group-message topic, when that topic is not also the data topic, whose payload does not
  parse, or parses to a document other than null whose \<^verbatim>\<open>target\<close> or \<^verbatim>\<open>message\<close> is
  empty or missing, is reported with \<^verbatim>\<open>handleException\<close>, in a message that names the
  fields \<^verbatim>\<open>"target"\<close> and \<^verbatim>\<open>"message"\<close>, and nothing else happens: nothing is sent to a
  device or to a group.
\<close>

theorem message_failures_reported:
  assumes "topic message \<noteq> dataTopic r"
    and "topic message = messageTopic r \<or> topic message = groupMessageTopic r"
    and "json_parse (payload message) = None \<or>
         (\<exists>msg. json_parse (payload message) = Some msg \<and> msg \<noteq> JNull \<and> msg \<noteq> JUndefined \<and>
                (isEmpty (property ''target'' msg) \<or> isEmpty (property ''message'' msg)))"
  shows "\<exists>text. published json_parse g r message c = Inr [HandleException text] \<and>
           sublist (quoted ''target'') text \<and> sublist (quoted ''message'') text"
proof (cases "topic message = messageTopic r")
  case True
  then have "published json_parse g r message c = Inr [HandleException message_error]"
    using assms(1) message_published_failure(1) [OF assms(3)] by (simp add: published_def)
  then show ?thesis using message_error_fields by blast
next
  case False
  then have "published json_parse g r message c = Inr [HandleException groupmessage_error]"
    using assms(1,2) message_published_failure(2) [OF assms(3)] by (simp add: published_def)
  then show ?thesis using groupmessage_error_fields by blast
qed

theorem message_failures_reported_witness:
  "\<exists>text. published sample_parse sample_gateway sample_routes
             \<lparr>topic = ''message'', payload = target_only_payload\<rparr> \<lparr>client_id = ''dev2''\<rparr> =
           Inr [HandleException text] \<and>
     sublist (quoted ''target'') text \<and> sublist (quoted ''message'') text"
proof -
  have a: "topic \<lparr>topic = ''message'', payload = target_only_payload\<rparr> \<noteq> dataTopic sample_routes"
    by (simp add: sample_routes_topics)
  have b: "topic \<lparr>topic = ''message'', payload = target_only_payload\<rparr> = messageTopic sample_routes \<or>
           topic \<lparr>topic = ''message'', payload = target_only_payload\<rparr> = groupMessageTopic sample_routes"
    by (simp add: sample_routes_topics)
  have c: "sample_parse (payload \<lparr>topic = ''message'', payload = target_only_payload\<rparr>) = None \<or>
         (\<exists>msg. sample_parse (payload \<lparr>topic = ''message'', payload = target_only_payload\<rparr>) = Some msg \<and>
                msg \<noteq> JNull \<and> msg \<noteq> JUndefined \<and>
                (isEmpty (property ''target'' msg) \<or> isEmpty (property ''message'' msg)))"
    by (simp add: sample_parse_payloads obj_get_def)
  show ?thesis
    using message_failures_reported [of "\<lparr>topic = ''message'', payload = target_only_payload\<rparr>"
        sample_routes sample_parse sample_gateway "\<lparr>client_id = ''dev2''\<rparr>"] a b c
    by blast
qed

text \<open>
  Where one topic is configured for telemetry and for direct messages, a packet on it is
  routed as telemetry: a payload that does not parse is logged, and no exception is
  reported.
\<close>

theorem shared_topic_failure_only_logged:
  "topic \<lparr>topic = ''cmd'', payload = ''garbage''\<rparr> =
     messageTopic (ready_routes sample_config shared_topic_options) \<and>
   sample_parse (payload \<lparr>topic = ''cmd'', payload = ''garbage''\<rparr>) = None \<and>
   published sample_parse (fst (ready sample_config shared_topic_options JUndefined initial))
     (ready_routes sample_config shared_topic_options)
     \<lparr>topic = ''cmd'', payload = ''garbage''\<rparr> \<lparr>client_id = ''dev2''\<rparr> =
   Inr [Log (Failure (data_error ''garbage''))]"
  by (simp add: ready_routes_def Let_def shared_topic_options_def or_default_def sample_parse_payloads
      published_def data_published_def)

text \<open>
  The payload \<^verbatim>\<open>null\<close> parses, and reading \<^verbatim>\<open>msg.target\<close> of it throws: the handler
  ends in a TypeError before it reports or sends anything.
\<close>

lemma null_message_throws:
  "published sample_parse sample_gateway sample_routes \<lparr>topic = ''message'', payload = ''null''\<rparr>
     \<lparr>client_id = ''dev2''\<rparr> = Inl (TypeError ''Cannot read property target of null'')"
  by (simp add: published_def message_published_def incomplete_def sample_routes_topics
      sample_parse_payloads)

section \<open>Quality of service\<close>

text \<open>
  Every packet the gateway publishes, as an acknowledgment or for a message event,
  carries the one quality of service the ready handler stored.
\<close>

lemma published_qos:
  assumes "published json_parse g r message c = Inr out"
  shows "list_all (\<lambda>p. pub_qos p = qos g) (publications out)"
  using assms
  by (auto simp: published_def data_published_def message_published_def groupmessage_published_def
      acknowledge_def Let_def split: if_splits option.splits sum.splits)

lemma on_message_qos:
  assumes "on_message g message = Inr out"
  shows "list_all (\<lambda>p. pub_qos p = qos g) (publications out)"
  using assms by (auto simp: on_message_def split: if_splits sum.splits)

text \<open>
  The quality of service the ready handler stores: 0 when the option is absent or 0, the
  number a string such as \<^verbatim>\<open>1\<close> or \<^verbatim>\<open>2\<close> reads as, and 0 for every number.
\<close>

lemma ready_qos_values:
  "ready_qos JUndefined = Inr (Number 0)" "ready_qos JNull = Inr (Number 0)"
  "ready_qos (JNum 0) = Inr (Number 0)" "ready_qos (JStr ''0'') = Inr (Number 0)"
  "ready_qos (JStr ''1'') = Inr (Number 1)" "ready_qos (JStr ''2'') = Inr (Number 2)"
  "ready_qos (JNum n) = Inr (Number 0)"
  by (simp_all add: ready_qos_def parseInt_def parseInt_string_def js_space_def digit_of_def)

text \<open>
  Claim C9 fails where the option is the number 1: \<^verbatim>\<open>isEmpty\<close> is true of every
  number, so the handler takes the branch meant for an absent option and stores 0.
\<close>

theorem numeric_qos_ignored:
  "qos (fst (ready cfg (opts\<lparr>opt_qos := JNum 1\<rparr>) snapshot g)) = Some (Number 0)"
  by (simp add: ready_def ready_qos_def split: sum.splits)

section \<open>Messages to devices\<close>

text \<open>
  Claim C10. Once the ready event has created the broker, a message event publishes the
  message's payload to the topic named by its device, with the message id, the gateway's
  quality of service and retain false, then answers \<^verbatim>\<open>Message Published\<close> for the
  message id, then logs; and it does so whatever the registry holds, a registry without
  the device included.
\<close>

theorem message_event_published:
  assumes "server g"
  shows "on_message (g\<lparr>authorizedDevices := devices\<rparr>) (JObj props) =
           Inr [ServerPublish \<lparr>pub_topic = obj_get props ''device'', pub_payload = obj_get props ''message'',
                               pub_messageId = Some (obj_get props ''messageId''),
                               pub_qos = qos g, pub_retain = False\<rparr>,
                SendMessageResponse (obj_get props ''messageId'') ''Message Published'',
                Log (Json (JObj [(''title'', JStr ''Message Published''),
                                 (''device'', obj_get props ''device''),
                                 (''messageId'', obj_get props ''messageId''),
                                 (''message'', obj_get props ''message'')]))]"
  using assms by (simp add: on_message_def)

theorem message_event_published_witness:
  "on_message (sample_gateway\<lparr>authorizedDevices := empty_object\<rparr>)
     (JObj [(''device'', JStr ''dev9''), (''message'', JStr ''on''), (''messageId'', JStr ''m1'')]) =
   Inr [ServerPublish \<lparr>pub_topic = JStr ''dev9'', pub_payload = JStr ''on'', pub_messageId = Some (JStr ''m1''),
                       pub_qos = Some (Number 1), pub_retain = False\<rparr>,
        SendMessageResponse (JStr ''m1'') ''Message Published'',
        Log (Json (JObj [(''title'', JStr ''Message Published''), (''device'', JStr ''dev9''),
                         (''messageId'', JStr ''m1''), (''message'', JStr ''on'')]))]"
  using message_event_published [OF sample_gateway_server, of empty_object
      "[(''device'', JStr ''dev9''), (''message'', JStr ''on''), (''messageId'', JStr ''m1'')]"]
  by (simp add: obj_get_def sample_gateway_qos)

text \<open>Before the ready event there is no broker, and the handler throws.\<close>

lemma message_before_ready_throws:
  "on_message initial message = Inl (TypeError ''Cannot read property publish of undefined'')"
  by (simp add: on_message_def initial_def)

end
